theory Spec2Isabelle
  imports Complex_Main
begin

section \<open>The DeepSeek-OCR runner script\<close>

text \<open>
  The script \<^verbatim>\<open>deepseek_ocr_runner.py\<close> has two functions, \<^verbatim>\<open>run_ocr\<close> and
  \<^verbatim>\<open>main\<close>. Everything it computes with comes from libraries (transformers, torch,
  argparse), so the embedding takes the behaviour of each library call as a field of an
  environment record and models what the script itself does with the outcomes: the order
  of the calls, the \<^verbatim>\<open>try\<close>/\<^verbatim>\<open>except Exception\<close> block, the dictionaries it builds,
  the stream it prints to and the value it returns.
\<close>

subsection \<open>Python values\<close>

text \<open>
  A raised exception, as far as the script looks at it: \<^verbatim>\<open>type(e).__name__\<close>,
  \<^verbatim>\<open>str(e)\<close>, and whether \<^verbatim>\<open>isinstance(e, Exception)\<close> holds, which is what
  \<^verbatim>\<open>except Exception\<close> tests. \<^verbatim>\<open>KeyboardInterrupt\<close>, \<^verbatim>\<open>SystemExit\<close> and
  \<^verbatim>\<open>GeneratorExit\<close> derive from \<^verbatim>\<open>BaseException\<close> only.
\<close>

record pyexc =
  exc_name :: string
  exc_str :: string
  exc_is_Exception :: bool

text \<open>
  The value \<^verbatim>\<open>model.infer\<close> returns: a \<^verbatim>\<open>str\<close> (for which
  \<^verbatim>\<open>isinstance(result, str)\<close> holds) or any other object.
\<close>

datatype 'o pyval = PyStr string | PyOther 'o

text \<open>
  What \<^verbatim>\<open>json.dumps\<close> is applied to. A Python float literal is kept as the decimal
  number it is written as; the script does no arithmetic on it.
\<close>

datatype json =
    JNull
  | JBool bool
  | JInt int
  | JFloat real
  | JString string
  | JArray "json list"
  | JObject "(string \<times> json) list"

fun json_get :: "json \<Rightarrow> string \<Rightarrow> json option" where
  "json_get (JObject kvs) k = map_of kvs k"
| "json_get _ k = None"

fun json_keys :: "json \<Rightarrow> string list option" where
  "json_keys (JObject kvs) = Some (map fst kvs)"
| "json_keys _ = None"

subsection \<open>The library calls\<close>

datatype torch_dtype = bfloat16 | float16 | float32

text \<open>The keyword arguments of one \<^verbatim>\<open>model.infer\<close> call, and the gradient mode it runs in.\<close>

record infer_call =
  ic_prompt :: string
  ic_image_file :: string
  ic_base_size :: int
  ic_image_size :: int
  ic_grad_enabled :: bool

text \<open>
  Each library call either raises (\<open>Inl\<close>) or returns (\<open>Inr\<close>). The tokenizer, the model
  and the non-string results are opaque to the script, hence type parameters.
  \<^item> \<open>AutoTokenizer_from_pretrained path trust_remote_code\<close>
  \<^item> \<open>AutoModel_from_pretrained path trust_remote_code torch_dtype\<close>
  \<^item> \<open>cuda_is_available\<close>: \<^verbatim>\<open>torch.cuda.is_available()\<close>, fixed during one run
  \<^item> \<open>model_cuda\<close>, \<open>model_eval\<close>: \<^verbatim>\<open>model.cuda()\<close>, \<^verbatim>\<open>model.eval()\<close>
  \<^item> \<open>model_infer model tokenizer call\<close>: \<^verbatim>\<open>model.infer(tokenizer, ...)\<close>
  \<^item> \<open>py_str\<close>: \<^verbatim>\<open>str(result)\<close> on a result that is not a \<^verbatim>\<open>str\<close>
\<close>

record ('t, 'm, 'o) env =
  AutoTokenizer_from_pretrained :: "string \<Rightarrow> bool \<Rightarrow> pyexc + 't"
  AutoModel_from_pretrained :: "string \<Rightarrow> bool \<Rightarrow> torch_dtype \<Rightarrow> pyexc + 'm"
  cuda_is_available :: bool
  model_cuda :: "'m \<Rightarrow> pyexc + 'm"
  model_eval :: "'m \<Rightarrow> pyexc + 'm"
  model_infer :: "'m \<Rightarrow> 't \<Rightarrow> infer_call \<Rightarrow> pyexc + 'o pyval"
  py_str :: "'o \<Rightarrow> pyexc + string"

subsection \<open>The process state\<close>

text \<open>
  The two streams hold the objects printed so far, one per \<^verbatim>\<open>print(json.dumps(...))\<close>.
  Both dictionaries the script serializes hold strings and one float, on which
  \<^verbatim>\<open>json.dumps\<close> does not fail, and writing to a stream is taken to succeed.
  \<open>grad_enabled\<close> is torch's global gradient mode. \<open>infer_calls\<close> records every
  \<^verbatim>\<open>model.infer\<close> call made, in order.
\<close>

record proc =
  stdout :: "json list"
  stderr :: "json list"
  grad_enabled :: bool
  infer_calls :: "infer_call list"

definition print_stdout :: "json \<Rightarrow> proc \<Rightarrow> proc" where
  "print_stdout j s = s\<lparr>stdout := stdout s @ [j]\<rparr>"

definition print_stderr :: "json \<Rightarrow> proc \<Rightarrow> proc" where
  "print_stderr j s = s\<lparr>stderr := stderr s @ [j]\<rparr>"

text \<open>
  \<^verbatim>\<open>with torch.no_grad(): body\<close> switches the gradient mode off, runs the body and
  restores the previous mode, also when the body raises.
\<close>

definition no_grad :: "(proc \<Rightarrow> (pyexc + 'a) \<times> proc) \<Rightarrow> proc \<Rightarrow> (pyexc + 'a) \<times> proc" where
  "no_grad body s =
     (let prev = grad_enabled s;
          (r, s') = body (s\<lparr>grad_enabled := False\<rparr>)
      in (r, s'\<lparr>grad_enabled := prev\<rparr>))"

subsection \<open>\<^verbatim>\<open>run_ocr\<close>\<close>

definition default_model_path :: string where
  "default_model_path = ''deepseek-ai/DeepSeek-OCR''"

text \<open>Lines 43 to 49: the one call of \<^verbatim>\<open>model.infer\<close>.\<close>

definition infer :: "('t, 'm, 'o) env \<Rightarrow> 'm \<Rightarrow> 't \<Rightarrow> string \<Rightarrow> string \<Rightarrow> proc
    \<Rightarrow> (pyexc + 'o pyval) \<times> proc" where
  "infer env model tokenizer prompt image_path s =
     (let c = \<lparr>ic_prompt = prompt, ic_image_file = image_path,
                ic_base_size = 1024, ic_image_size = 640,
                ic_grad_enabled = grad_enabled s\<rparr>
      in (model_infer env model tokenizer c, s\<lparr>infer_calls := infer_calls s @ [c]\<rparr>))"

text \<open>Line 53: \<^verbatim>\<open>result if isinstance(result, str) else str(result)\<close>.\<close>

definition text_of :: "('t, 'm, 'o) env \<Rightarrow> 'o pyval \<Rightarrow> pyexc + string" where
  "text_of env result = (case result of PyStr x \<Rightarrow> Inr x | PyOther ob \<Rightarrow> py_str env ob)"

text \<open>Line 57: \<^verbatim>\<open>"cuda" if torch.cuda.is_available() else "cpu"\<close>.\<close>

definition device_name :: "('t, 'm, 'o) env \<Rightarrow> string" where
  "device_name env = (if cuda_is_available env then ''cuda'' else ''cpu'')"

text \<open>
  Lines 52 to 59 and 65 to 68: the two dictionaries, \<^verbatim>\<open>output\<close> and
  \<^verbatim>\<open>error_output\<close>.
\<close>

definition success_output :: "string \<Rightarrow> string \<Rightarrow> string \<Rightarrow> json" where
  "success_output txt model_path device =
     JObject [(''text'', JString txt),
              (''confidence'', JFloat 0.85),
              (''metadata'', JObject [(''model'', JString model_path),
                                      (''device'', JString device)])]"

definition error_output :: "pyexc \<Rightarrow> json" where
  "error_output e = JObject [(''error'', JString (exc_str e)), (''type'', JString (exc_name e))]"

text \<open>Lines 27 to 39: load tokenizer and model, move to the GPU if there is one, \<^verbatim>\<open>eval()\<close>.\<close>

definition load :: "('t, 'm, 'o) env \<Rightarrow> string \<Rightarrow> pyexc + ('t \<times> 'm)" where
  "load env model_path =
     (case AutoTokenizer_from_pretrained env model_path True of
        Inl e \<Rightarrow> Inl e
      | Inr tokenizer \<Rightarrow>
         (case AutoModel_from_pretrained env model_path True bfloat16 of
            Inl e \<Rightarrow> Inl e
          | Inr model \<Rightarrow>
             (case (if cuda_is_available env then model_cuda env model else Inr model) of
                Inl e \<Rightarrow> Inl e
              | Inr model \<Rightarrow>
                 (case model_eval env model of
                    Inl e \<Rightarrow> Inl e
                  | Inr model \<Rightarrow> Inr (tokenizer, model)))))"

text \<open>The body of the \<^verbatim>\<open>try\<close> block, lines 27 to 62.\<close>

definition try_body :: "('t, 'm, 'o) env \<Rightarrow> string \<Rightarrow> string \<Rightarrow> string \<Rightarrow> proc
    \<Rightarrow> (pyexc + int) \<times> proc" where
  "try_body env image_path prompt model_path s =
     (case load env model_path of
        Inl e \<Rightarrow> (Inl e, s)
      | Inr (tokenizer, model) \<Rightarrow>
         (case no_grad (infer env model tokenizer prompt image_path) s of
            (Inl e, s1) \<Rightarrow> (Inl e, s1)
          | (Inr result, s1) \<Rightarrow>
             (case text_of env result of
                Inl e \<Rightarrow> (Inl e, s1)
              | Inr txt \<Rightarrow>
                 (Inr 0, print_stdout (success_output txt model_path (device_name env)) s1))))"

text \<open>
  Lines 64 to 70, the handler \<^verbatim>\<open>except Exception as e\<close>. An exception that is not an
  instance of \<^verbatim>\<open>Exception\<close> is not handled: it leaves the function (\<open>Inl\<close>).
\<close>

definition except_Exception :: "pyexc \<Rightarrow> proc \<Rightarrow> (pyexc + int) \<times> proc" where
  "except_Exception e s =
     (if exc_is_Exception e then (Inr 1, print_stderr (error_output e) s) else (Inl e, s))"

definition run_ocr :: "('t, 'm, 'o) env \<Rightarrow> string \<Rightarrow> string \<Rightarrow> string \<Rightarrow> proc
    \<Rightarrow> (pyexc + int) \<times> proc" where
  "run_ocr env image_path prompt model_path s =
     (case try_body env image_path prompt model_path s of
        (Inr rc, s1) \<Rightarrow> (Inr rc, s1)
      | (Inl e, s1) \<Rightarrow> except_Exception e s1)"

subsection \<open>\<^verbatim>\<open>main\<close>\<close>

text \<open>
  What argparse found on the command line: the positional argument and, for each of the
  two options, its value when the option occurs.
\<close>

record supplied =
  pos_image_path :: string
  opt_prompt :: "string option"
  opt_model :: "string option"

record namespace =
  args_image_path :: string
  args_prompt :: string
  args_model :: string

definition default_prompt :: string where
  "default_prompt = ''<image>'' @ [CHR 0x0A] @ ''<|grounding|>Extract all text from this document.''"

text \<open>
  Lines 74 to 81. \<open>scan\<close> is argparse's reading of the argument vector: it exits with a
  status (\<open>Inl\<close>: 2 on a usage error, 0 after \<^verbatim>\<open>--help\<close>) or tells which arguments
  occur. The parser the script declares fills in the two \<^verbatim>\<open>default=\<close> values.
\<close>

definition parse_args :: "(string list \<Rightarrow> int + supplied) \<Rightarrow> string list \<Rightarrow> int + namespace" where
  "parse_args scan argv =
     (case scan argv of
        Inl status \<Rightarrow> Inl status
      | Inr c \<Rightarrow>
          Inr \<lparr>args_image_path = pos_image_path c,
               args_prompt = (case opt_prompt c of None \<Rightarrow> default_prompt | Some p \<Rightarrow> p),
               args_model = (case opt_model c of None \<Rightarrow> default_model_path | Some m \<Rightarrow> m)\<rparr>)"

text \<open>How the process ends: \<^verbatim>\<open>sys.exit(status)\<close>, or an exception nobody caught.\<close>

datatype ending = SystemExit int | Uncaught pyexc

definition main :: "(string list \<Rightarrow> int + supplied) \<Rightarrow> ('t, 'm, 'o) env \<Rightarrow> string list \<Rightarrow> proc
    \<Rightarrow> ending \<times> proc" where
  "main scan env argv s =
     (case parse_args scan argv of
        Inl status \<Rightarrow> (SystemExit status, s)
      | Inr args \<Rightarrow>
         (case run_ocr env (args_image_path args) (args_prompt args) (args_model args) s of
            (Inr exit_code, s1) \<Rightarrow> (SystemExit exit_code, s1)
          | (Inl e, s1) \<Rightarrow> (Uncaught e, s1)))"

subsection \<open>Observing a run\<close>

text \<open>What a run appended to a stream or to the call record: the part after the old contents.\<close>

definition emitted :: "'a list \<Rightarrow> 'a list \<Rightarrow> 'a list option" where
  "emitted before after =
     (if take (length before) after = before then Some (drop (length before) after) else None)"

definition is_success_object :: "json \<Rightarrow> bool" where
  "is_success_object j = (json_keys j = Some [''text'', ''confidence'', ''metadata''])"

definition is_error_object :: "json \<Rightarrow> bool" where
  "is_error_object j = (json_keys j = Some [''error'', ''type''])"

definition metadata_field :: "json \<Rightarrow> string \<Rightarrow> json option" where
  "metadata_field j k = (case json_get j ''metadata'' of None \<Rightarrow> None | Some md \<Rightarrow> json_get md k)"

text \<open>
  The two output shapes of a run that started in state \<open>s\<close>: one success object on standard
  output, nothing on standard error, return value 0; or one error object on standard error,
  nothing on standard output, return value 1.
\<close>

definition success_shape :: "proc \<Rightarrow> (pyexc + int) \<times> proc \<Rightarrow> bool" where
  "success_shape s out =
     (fst out = Inr 0
      \<and> emitted (stderr s) (stderr (snd out)) = Some []
      \<and> (case emitted (stdout s) (stdout (snd out)) of
            Some [j] \<Rightarrow> is_success_object j
          | _ \<Rightarrow> False))"

definition error_shape :: "proc \<Rightarrow> (pyexc + int) \<times> proc \<Rightarrow> bool" where
  "error_shape s out =
     (fst out = Inr 1
      \<and> emitted (stdout s) (stdout (snd out)) = Some []
      \<and> (case emitted (stderr s) (stderr (snd out)) of
            Some [j] \<Rightarrow> is_error_object j
          | _ \<Rightarrow> False))"

text \<open>A library call whose failures, if any, are instances of \<^verbatim>\<open>Exception\<close>.\<close>

definition ordinary :: "pyexc + 'a \<Rightarrow> bool" where
  "ordinary r = (case r of Inl e \<Rightarrow> exc_is_Exception e | Inr v \<Rightarrow> True)"

definition ordinary_env :: "('t, 'm, 'o) env \<Rightarrow> bool" where
  "ordinary_env env =
     ((\<forall>p t. ordinary (AutoTokenizer_from_pretrained env p t))
      \<and> (\<forall>p t d. ordinary (AutoModel_from_pretrained env p t d))
      \<and> (\<forall>m. ordinary (model_cuda env m))
      \<and> (\<forall>m. ordinary (model_eval env m))
      \<and> (\<forall>m t c. ordinary (model_infer env m t c))
      \<and> (\<forall>ob. ordinary (py_str env ob)))"

text \<open>
  The failure of steps 1 to 6 as the specification lists them: the exception of the first
  step that raises, among loading the tokenizer, loading the model, device placement, the
  switch to inference mode, the inference call and the coercion of its result for
  serialization; \<open>None\<close> when every step returns.
\<close>

definition first_failure :: "('t, 'm, 'o) env \<Rightarrow> string \<Rightarrow> string \<Rightarrow> string \<Rightarrow> pyexc option" where
  "first_failure env image_path prompt model_path =
     (case AutoTokenizer_from_pretrained env model_path True of
        Inl e \<Rightarrow> Some e
      | Inr tok \<Rightarrow>
     (case AutoModel_from_pretrained env model_path True bfloat16 of
        Inl e \<Rightarrow> Some e
      | Inr m0 \<Rightarrow>
     (case (if cuda_is_available env then model_cuda env m0 else Inr m0) of
        Inl e \<Rightarrow> Some e
      | Inr m1 \<Rightarrow>
     (case model_eval env m1 of
        Inl e \<Rightarrow> Some e
      | Inr m2 \<Rightarrow>
     (case model_infer env m2 tok
             \<lparr>ic_prompt = prompt, ic_image_file = image_path, ic_base_size = 1024,
              ic_image_size = 640, ic_grad_enabled = False\<rparr> of
        Inl e \<Rightarrow> Some e
      | Inr (PyStr x) \<Rightarrow> None
      | Inr (PyOther ob) \<Rightarrow>
     (case py_str env ob of
        Inl e \<Rightarrow> Some e
      | Inr txt \<Rightarrow> None))))))"

text \<open>The call \<^verbatim>\<open>run_ocr\<close> makes when it reaches line 43.\<close>

definition the_call :: "string \<Rightarrow> string \<Rightarrow> infer_call" where
  "the_call prompt image_path =
     \<lparr>ic_prompt = prompt, ic_image_file = image_path,
      ic_base_size = 1024, ic_image_size = 640, ic_grad_enabled = False\<rparr>"

subsection \<open>Sample environments\<close>

definition FileNotFoundError :: pyexc where
  "FileNotFoundError =
     \<lparr>exc_name = ''FileNotFoundError'', exc_str = ''No such file: missing.png'',
      exc_is_Exception = True\<rparr>"

definition OSError :: pyexc where
  "OSError =
     \<lparr>exc_name = ''OSError'', exc_str = ''no-such-model is not a valid model identifier'',
      exc_is_Exception = True\<rparr>"

definition KeyboardInterrupt :: pyexc where
  "KeyboardInterrupt =
     \<lparr>exc_name = ''KeyboardInterrupt'', exc_str = [], exc_is_Exception = False\<rparr>"

text \<open>
  A machine with a GPU. The model is represented by the name of the device it is on; the
  model \<open>no-such-model\<close> cannot be loaded, and the only image there is is \<open>scan.png\<close>.
\<close>

definition env_gpu :: "(unit, string, unit) env" where
  "env_gpu =
     \<lparr>AutoTokenizer_from_pretrained =
        (\<lambda>p t. if p = ''no-such-model'' then Inl OSError else Inr ()),
      AutoModel_from_pretrained =
        (\<lambda>p t d. if p = ''no-such-model'' then Inl OSError else Inr ''cpu''),
      cuda_is_available = True,
      model_cuda = (\<lambda>m. Inr ''cuda''),
      model_eval = (\<lambda>m. Inr m),
      model_infer =
        (\<lambda>m t c. if ic_image_file c = ''scan.png'' then Inr (PyStr ''Invoice 42'')
                  else Inl FileNotFoundError),
      py_str = (\<lambda>ob. Inr ''None'')\<rparr>"

definition env_cpu :: "(unit, string, unit) env" where
  "env_cpu = env_gpu\<lparr>cuda_is_available := False\<rparr>"

text \<open>The same machine with a model whose \<^verbatim>\<open>infer\<close> returns \<^verbatim>\<open>None\<close>.\<close>

definition env_none :: "(unit, string, unit) env" where
  "env_none = env_gpu\<lparr>model_infer := (\<lambda>m t c. Inr (PyOther ()))\<rparr>"

text \<open>The user presses Ctrl-C while the tokenizer, the model, or the inference is running.\<close>

definition env_interrupted_tokenizer :: "(unit, string, unit) env" where
  "env_interrupted_tokenizer =
     env_gpu\<lparr>AutoTokenizer_from_pretrained := (\<lambda>p t. Inl KeyboardInterrupt)\<rparr>"

definition env_interrupted_model :: "(unit, string, unit) env" where
  "env_interrupted_model =
     env_gpu\<lparr>AutoModel_from_pretrained := (\<lambda>p t d. Inl KeyboardInterrupt)\<rparr>"

definition env_interrupted_infer :: "(unit, string, unit) env" where
  "env_interrupted_infer = env_gpu\<lparr>model_infer := (\<lambda>m t c. Inl KeyboardInterrupt)\<rparr>"

text \<open>A model whose result cannot be turned into a string.\<close>

definition TypeError :: pyexc where
  "TypeError =
     \<lparr>exc_name = ''TypeError'', exc_str = ''__str__ returned non-string (type int)'',
      exc_is_Exception = True\<rparr>"

definition env_unprintable :: "(unit, string, unit) env" where
  "env_unprintable =
     env_gpu\<lparr>model_infer := (\<lambda>m t c. Inr (PyOther ())), py_str := (\<lambda>ob. Inl TypeError)\<rparr>"

definition proc0 :: proc where
  "proc0 = \<lparr>stdout = [], stderr = [], grad_enabled = True, infer_calls = []\<rparr>"

text \<open>
  A scanner for the plain forms of the command line: \<open>--prompt VALUE\<close>, \<open>--model VALUE\<close>,
  \<open>--help\<close> and one positional argument.
\<close>

fun scan_plain :: "string option \<Rightarrow> string option \<Rightarrow> string option \<Rightarrow> string list
    \<Rightarrow> int + supplied" where
  "scan_plain im pr mo [] =
     (case im of
        None \<Rightarrow> Inl 2
      | Some p \<Rightarrow> Inr \<lparr>pos_image_path = p, opt_prompt = pr, opt_model = mo\<rparr>)"
| "scan_plain im pr mo [a] =
     (if a = ''--help'' then Inl 0
      else if a = ''--prompt'' \<or> a = ''--model'' then Inl 2
      else (case im of None \<Rightarrow> scan_plain (Some a) pr mo [] | Some p \<Rightarrow> Inl 2))"
| "scan_plain im pr mo (a # v # rest) =
     (if a = ''--help'' then Inl 0
      else if a = ''--prompt'' then scan_plain im (Some v) mo rest
      else if a = ''--model'' then scan_plain im pr (Some v) rest
      else (case im of None \<Rightarrow> scan_plain (Some a) pr mo (v # rest) | Some p \<Rightarrow> Inl 2))"

section \<open>Properties\<close>

subsection \<open>How a run unfolds\<close>

lemma emitted_append: "emitted xs (xs @ ys) = Some ys"
  by (simp add: emitted_def)

lemma emitted_same: "emitted xs xs = Some []"
  by (simp add: emitted_def)

lemma no_grad_infer:
  "no_grad (infer env mdl tok p i) s =
     (model_infer env mdl tok (the_call p i), s\<lparr>infer_calls := infer_calls s @ [the_call p i]\<rparr>)"
  by (simp add: no_grad_def infer_def the_call_def Let_def)

lemma run_ocr_load_raises:
  "load env m = Inl e \<Longrightarrow> run_ocr env i p m s = except_Exception e s"
  by (simp add: run_ocr_def try_body_def)

lemma run_ocr_loaded:
  "load env m = Inr (tok, mdl) \<Longrightarrow>
   run_ocr env i p m s =
     (case model_infer env mdl tok (the_call p i) of
        Inl e \<Rightarrow> except_Exception e (s\<lparr>infer_calls := infer_calls s @ [the_call p i]\<rparr>)
      | Inr result \<Rightarrow>
         (case text_of env result of
            Inl e \<Rightarrow> except_Exception e (s\<lparr>infer_calls := infer_calls s @ [the_call p i]\<rparr>)
          | Inr txt \<Rightarrow>
             (Inr 0, print_stdout (success_output txt m (device_name env))
                       (s\<lparr>infer_calls := infer_calls s @ [the_call p i]\<rparr>))))"
  by (simp add: run_ocr_def try_body_def no_grad_infer split: sum.splits)


lemma success_run:
  "fst (run_ocr env i p m s) = Inr 0 \<Longrightarrow>
   \<exists>tok mdl result txt.
     load env m = Inr (tok, mdl)
     \<and> model_infer env mdl tok (the_call p i) = Inr result
     \<and> text_of env result = Inr txt
     \<and> run_ocr env i p m s =
         (Inr 0, print_stdout (success_output txt m (device_name env))
                   (s\<lparr>infer_calls := infer_calls s @ [the_call p i]\<rparr>))"
proof (cases "load env m")
  case (Inl e)
  assume "fst (run_ocr env i p m s) = Inr 0"
  with Inl show ?thesis
    by (simp add: run_ocr_load_raises except_Exception_def split: if_splits)
next
  case (Inr tm)
  assume ok: "fst (run_ocr env i p m s) = Inr 0"
  obtain tok mdl where tm: "tm = (tok, mdl)" by (cases tm)
  with Inr have l: "load env m = Inr (tok, mdl)" by simp
  from ok show ?thesis
    unfolding run_ocr_loaded [OF l]
    by (auto simp: l except_Exception_def split: sum.splits if_splits)
qed

lemma try_body_raises:
  "try_body env i p m s = (Inl e, s1) \<Longrightarrow> stdout s1 = stdout s \<and> stderr s1 = stderr s"
  by (auto simp: try_body_def no_grad_infer split: sum.splits prod.splits)

lemma try_body_returns:
  "try_body env i p m s = (Inr rc, s1) \<Longrightarrow> rc = 0"
  by (auto simp: try_body_def no_grad_infer split: sum.splits prod.splits)

lemma run_ocr_caught:
  "try_body env i p m s = (Inl e, s1) \<Longrightarrow> exc_is_Exception e \<Longrightarrow>
   run_ocr env i p m s = (Inr 1, print_stderr (error_output e) s1)"
  by (simp add: run_ocr_def except_Exception_def)

lemma run_ocr_passes:
  "try_body env i p m s = (Inr rc, s1) \<Longrightarrow> run_ocr env i p m s = (Inr 0, s1)"
  using try_body_returns [of env i p m s rc s1] by (simp add: run_ocr_def)

lemma failure_run:
  assumes "fst (run_ocr env i p m s) = Inr 1"
  shows "\<exists>e s1. try_body env i p m s = (Inl e, s1) \<and> exc_is_Exception e
           \<and> run_ocr env i p m s = (Inr 1, print_stderr (error_output e) s1)"
proof (cases "try_body env i p m s")
  case (Pair r s1)
  show ?thesis
  proof (cases r)
    case (Inl e)
    with Pair assms show ?thesis
      by (auto simp: run_ocr_def except_Exception_def split: if_splits)
  next
    case (Inr rc)
    with Pair assms run_ocr_passes [of env i p m s rc s1] show ?thesis by simp
  qed
qed

lemma escaped_run:
  assumes "fst (run_ocr env i p m s) = Inl e"
  shows "\<not> exc_is_Exception e \<and> stdout (snd (run_ocr env i p m s)) = stdout s
           \<and> stderr (snd (run_ocr env i p m s)) = stderr s"
proof (cases "try_body env i p m s")
  case (Pair r s1)
  show ?thesis
  proof (cases r)
    case (Inl e')
    with Pair assms try_body_raises [of env i p m s e' s1] show ?thesis
      by (auto simp: run_ocr_def except_Exception_def split: if_splits)
  next
    case (Inr rc)
    with Pair assms run_ocr_passes [of env i p m s rc s1] show ?thesis by simp
  qed
qed

lemma success_shape_iff:
  "success_shape s (run_ocr env i p m s) \<longleftrightarrow> fst (run_ocr env i p m s) = Inr 0"
proof
  assume "success_shape s (run_ocr env i p m s)"
  then show "fst (run_ocr env i p m s) = Inr 0" by (simp add: success_shape_def)
next
  assume "fst (run_ocr env i p m s) = Inr 0"
  from success_run [OF this] show "success_shape s (run_ocr env i p m s)"
    by (auto simp: success_shape_def print_stdout_def emitted_append emitted_same
        is_success_object_def success_output_def)
qed

lemma error_shape_iff:
  "error_shape s (run_ocr env i p m s) \<longleftrightarrow> fst (run_ocr env i p m s) = Inr 1"
proof
  assume "error_shape s (run_ocr env i p m s)"
  then show "fst (run_ocr env i p m s) = Inr 1" by (simp add: error_shape_def)
next
  assume "fst (run_ocr env i p m s) = Inr 1"
  from failure_run [OF this] obtain e s1 where
    t: "try_body env i p m s = (Inl e, s1)" and
    r: "run_ocr env i p m s = (Inr 1, print_stderr (error_output e) s1)" by blast
  from try_body_raises [OF t] r show "error_shape s (run_ocr env i p m s)"
    by (simp add: error_shape_def print_stderr_def emitted_append emitted_same
        is_error_object_def error_output_def)
qed


lemma load_ordinary:
  "ordinary_env env \<Longrightarrow> load env m = Inl e \<Longrightarrow> exc_is_Exception e"
  unfolding ordinary_env_def ordinary_def load_def
  by (auto split: sum.splits if_splits)

lemma text_of_ordinary:
  "ordinary_env env \<Longrightarrow> text_of env result = Inl e \<Longrightarrow> exc_is_Exception e"
  unfolding ordinary_env_def ordinary_def text_of_def
  by (auto split: sum.splits pyval.splits)

lemma infer_ordinary:
  "ordinary_env env \<Longrightarrow> model_infer env mdl tok c = Inl e \<Longrightarrow> exc_is_Exception e"
  unfolding ordinary_env_def ordinary_def
  by (auto split: sum.splits)

lemma try_body_ordinary:
  "ordinary_env env \<Longrightarrow> try_body env i p m s = (Inl e, s1) \<Longrightarrow> exc_is_Exception e"
  by (auto simp: try_body_def no_grad_infer split: sum.splits prod.splits
      dest: load_ordinary text_of_ordinary infer_ordinary)

lemma run_ocr_ordinary:
  assumes "ordinary_env env"
  shows "fst (run_ocr env i p m s) = Inr 0 \<or> fst (run_ocr env i p m s) = Inr 1"
proof (cases "try_body env i p m s")
  case (Pair r s1)
  show ?thesis
  proof (cases r)
    case (Inl e)
    with Pair assms have "exc_is_Exception e" by (auto dest: try_body_ordinary)
    with Pair Inl show ?thesis by (simp add: run_ocr_caught)
  next
    case (Inr rc)
    with Pair show ?thesis by (simp add: run_ocr_passes)
  qed
qed

lemma ordinary_env_gpu: "ordinary_env env_gpu"
  by (simp add: ordinary_env_def ordinary_def env_gpu_def OSError_def FileNotFoundError_def)


lemma run_ocr_frame:
  "\<exists>r out err calls. \<forall>s. run_ocr env i p m s =
     (r, s\<lparr>stdout := stdout s @ out, stderr := stderr s @ err,
            infer_calls := infer_calls s @ calls\<rparr>)"
proof (cases "load env m")
  case (Inl e)
  show ?thesis
  proof (cases "exc_is_Exception e")
    case True
    with Inl have "\<forall>s. run_ocr env i p m s =
      (Inr 1, s\<lparr>stdout := stdout s @ [], stderr := stderr s @ [error_output e],
            infer_calls := infer_calls s @ []\<rparr>)"
      by (simp add: run_ocr_load_raises except_Exception_def print_stderr_def)
    then show ?thesis by blast
  next
    case False
    with Inl have "\<forall>s. run_ocr env i p m s =
      (Inl e, s\<lparr>stdout := stdout s @ [], stderr := stderr s @ [],
            infer_calls := infer_calls s @ []\<rparr>)"
      by (simp add: run_ocr_load_raises except_Exception_def)
    then show ?thesis by blast
  qed
next
  case (Inr tm)
  obtain tok mdl where "tm = (tok, mdl)" by (cases tm)
  with Inr have l: "load env m = Inr (tok, mdl)" by simp
  let ?c = "the_call p i"
  have caught: "\<exists>r out err calls. \<forall>s. except_Exception e (s\<lparr>infer_calls := infer_calls s @ [?c]\<rparr>) =
     (r, s\<lparr>stdout := stdout s @ out, stderr := stderr s @ err,
            infer_calls := infer_calls s @ calls\<rparr>)" for e
  proof (cases "exc_is_Exception e")
    case True
    then have "\<forall>s. except_Exception e (s\<lparr>infer_calls := infer_calls s @ [?c]\<rparr>) =
      (Inr 1, s\<lparr>stdout := stdout s @ [], stderr := stderr s @ [error_output e],
            infer_calls := infer_calls s @ [?c]\<rparr>)"
      by (simp add: except_Exception_def print_stderr_def)
    then show ?thesis by blast
  next
    case False
    then have "\<forall>s. except_Exception e (s\<lparr>infer_calls := infer_calls s @ [?c]\<rparr>) =
      (Inl e, s\<lparr>stdout := stdout s @ [], stderr := stderr s @ [],
            infer_calls := infer_calls s @ [?c]\<rparr>)"
      by (simp add: except_Exception_def)
    then show ?thesis by blast
  qed
  show ?thesis
  proof (cases "model_infer env mdl tok ?c")
    case (Inl e)
    with caught [of e] show ?thesis by (simp add: run_ocr_loaded [OF l])
  next
    case (Inr result)
    note res = this
    show ?thesis
    proof (cases "text_of env result")
      case (Inl e)
      with res caught [of e] show ?thesis by (simp add: run_ocr_loaded [OF l])
    next
      case (Inr tx)
      with res have "\<forall>s. run_ocr env i p m s =
        (Inr 0, s\<lparr>stdout := stdout s @ [success_output tx m (device_name env)],
              stderr := stderr s @ [], infer_calls := infer_calls s @ [?c]\<rparr>)"
        by (simp add: run_ocr_loaded [OF l] print_stdout_def)
      then show ?thesis by blast
    qed
  qed
qed

lemma run_ocr_infer_calls:
  "emitted (infer_calls s) (infer_calls (snd (run_ocr env i p m s))) =
     (case load env m of Inl e \<Rightarrow> Some [] | Inr tm \<Rightarrow> Some [the_call p i])"
proof (cases "load env m")
  case (Inl e)
  then show ?thesis
    by (simp add: run_ocr_load_raises except_Exception_def print_stderr_def emitted_same)
next
  case (Inr tm)
  obtain tok mdl where "tm = (tok, mdl)" by (cases tm)
  with Inr have l: "load env m = Inr (tok, mdl)" by simp
  show ?thesis
    by (simp add: run_ocr_loaded [OF l] l except_Exception_def print_stderr_def
        print_stdout_def emitted_append split: sum.splits)
qed

lemma run_ocr_grad_enabled:
  "grad_enabled (snd (run_ocr env i p m s)) = grad_enabled s"
proof (cases "load env m")
  case (Inl e)
  then show ?thesis
    by (simp add: run_ocr_load_raises except_Exception_def print_stderr_def)
next
  case (Inr tm)
  obtain tok mdl where "tm = (tok, mdl)" by (cases tm)
  with Inr have l: "load env m = Inr (tok, mdl)" by simp
  show ?thesis
    by (simp add: run_ocr_loaded [OF l] l except_Exception_def print_stderr_def
        print_stdout_def split: sum.splits)
qed

lemma first_failure_try_body:
  "first_failure env i p m = Some e \<longleftrightarrow> (\<exists>s1. try_body env i p m s = (Inl e, s1))"
  by (auto simp: first_failure_def try_body_def load_def no_grad_infer the_call_def text_of_def
      split: sum.splits pyval.splits prod.splits if_splits)

subsection \<open>Sample runs\<close>

lemma ordinary_env_none: "ordinary_env env_none"
  by (simp add: ordinary_env_def ordinary_def env_none_def env_gpu_def OSError_def)

lemma load_gpu: "load env_gpu default_model_path = Inr ((), ''cuda'')"
  by (simp add: load_def env_gpu_def default_model_path_def)

lemma load_gpu_no_model: "load env_gpu ''no-such-model'' = Inl OSError"
  by (simp add: load_def env_gpu_def)

lemma load_cpu: "load env_cpu ''other/model'' = Inr ((), ''cpu'')"
  by (simp add: load_def env_cpu_def env_gpu_def)

lemma load_none: "load env_none default_model_path = Inr ((), ''cuda'')"
  by (simp add: load_def env_none_def env_gpu_def default_model_path_def)

lemma load_unprintable: "load env_unprintable default_model_path = Inr ((), ''cuda'')"
  by (simp add: load_def env_unprintable_def env_gpu_def default_model_path_def)

lemma load_interrupted_infer: "load env_interrupted_infer default_model_path = Inr ((), ''cuda'')"
  by (simp add: load_def env_interrupted_infer_def env_gpu_def default_model_path_def)

lemma run_gpu_scan:
  "run_ocr env_gpu ''scan.png'' default_prompt default_model_path proc0 =
     (Inr 0, proc0\<lparr>stdout := [success_output ''Invoice 42'' default_model_path ''cuda''],
               infer_calls := [the_call default_prompt ''scan.png'']\<rparr>)"
  by (subst run_ocr_loaded [OF load_gpu])
    (simp add: env_gpu_def the_call_def text_of_def print_stdout_def proc0_def device_name_def)

lemma run_gpu_missing:
  "run_ocr env_gpu ''missing.png'' default_prompt default_model_path proc0 =
     (Inr 1, proc0\<lparr>stderr := [error_output FileNotFoundError],
               infer_calls := [the_call default_prompt ''missing.png'']\<rparr>)"
  by (subst run_ocr_loaded [OF load_gpu])
    (simp add: env_gpu_def the_call_def except_Exception_def print_stderr_def proc0_def
      FileNotFoundError_def)

lemma run_gpu_no_model:
  "run_ocr env_gpu ''scan.png'' default_prompt ''no-such-model'' proc0 =
     (Inr 1, proc0\<lparr>stderr := [error_output OSError]\<rparr>)"
  by (simp add: run_ocr_load_raises [OF load_gpu_no_model] except_Exception_def
      print_stderr_def proc0_def OSError_def)

lemma run_cpu_scan:
  "run_ocr env_cpu ''scan.png'' ''Describe'' ''other/model'' proc0 =
     (Inr 0, proc0\<lparr>stdout := [success_output ''Invoice 42'' ''other/model'' ''cpu''],
               infer_calls := [the_call ''Describe'' ''scan.png'']\<rparr>)"
  by (subst run_ocr_loaded [OF load_cpu])
    (simp add: env_cpu_def env_gpu_def the_call_def text_of_def print_stdout_def proc0_def
      device_name_def)

lemma run_none:
  "run_ocr env_none ''page-2.png'' ''Describe'' default_model_path proc0 =
     (Inr 0, proc0\<lparr>stdout := [success_output ''None'' default_model_path ''cuda''],
               infer_calls := [the_call ''Describe'' ''page-2.png'']\<rparr>)"
  by (subst run_ocr_loaded [OF load_none])
    (simp add: env_none_def env_gpu_def text_of_def print_stdout_def proc0_def device_name_def)

lemma run_unprintable:
  "run_ocr env_unprintable ''scan.png'' default_prompt default_model_path proc0 =
     (Inr 1, proc0\<lparr>stderr := [error_output TypeError],
               infer_calls := [the_call default_prompt ''scan.png'']\<rparr>)"
  by (subst run_ocr_loaded [OF load_unprintable])
    (simp add: env_unprintable_def env_gpu_def text_of_def except_Exception_def
      print_stderr_def proc0_def TypeError_def)

lemma run_interrupted_tokenizer:
  "run_ocr env_interrupted_tokenizer ''scan.png'' default_prompt default_model_path proc0
     = (Inl KeyboardInterrupt, proc0)"
  by (simp add: run_ocr_def try_body_def load_def env_interrupted_tokenizer_def env_gpu_def
      except_Exception_def KeyboardInterrupt_def)

lemma run_interrupted_model:
  "run_ocr env_interrupted_model ''scan.png'' default_prompt default_model_path proc0
     = (Inl KeyboardInterrupt, proc0)"
  by (simp add: run_ocr_def try_body_def load_def env_interrupted_model_def env_gpu_def
      except_Exception_def KeyboardInterrupt_def default_model_path_def)

lemma run_interrupted_infer:
  "run_ocr env_interrupted_infer ''scan.png'' default_prompt default_model_path proc0
     = (Inl KeyboardInterrupt, proc0\<lparr>infer_calls := [the_call default_prompt ''scan.png'']\<rparr>)"
  by (subst run_ocr_loaded [OF load_interrupted_infer])
    (simp add: env_interrupted_infer_def except_Exception_def proc0_def KeyboardInterrupt_def)

lemma load_interrupted_tokenizer:
  "load env_interrupted_tokenizer default_model_path = Inl KeyboardInterrupt"
  by (simp add: load_def env_interrupted_tokenizer_def env_gpu_def)

subsection \<open>\<^verbatim>\<open>main\<close> and the record of inference calls\<close>

lemma main_parsed:
  assumes "scan argv = Inr c"
  shows "snd (main scan env argv s) =
           snd (run_ocr env (pos_image_path c)
                  (case opt_prompt c of None \<Rightarrow> default_prompt | Some p \<Rightarrow> p)
                  (case opt_model c of None \<Rightarrow> default_model_path | Some m \<Rightarrow> m) s)"
    and "fst (main scan env argv s) =
           (case fst (run_ocr env (pos_image_path c)
                        (case opt_prompt c of None \<Rightarrow> default_prompt | Some p \<Rightarrow> p)
                        (case opt_model c of None \<Rightarrow> default_model_path | Some m \<Rightarrow> m) s) of
              Inl e \<Rightarrow> Uncaught e
            | Inr exit_code \<Rightarrow> SystemExit exit_code)"
  using assms by (simp_all add: main_def parse_args_def split: prod.splits sum.splits)

lemma success_infer_calls:
  assumes "fst (run_ocr env i p m s) = Inr 0"
  shows "emitted (infer_calls s) (infer_calls (snd (run_ocr env i p m s))) = Some [the_call p i]"
  using success_run [OF assms] by (auto simp: run_ocr_infer_calls)

section \<open>The claims\<close>

subsection \<open>Output shapes and error handling\<close>

text \<open>
  C1 (amended). For every invocation of \<^verbatim>\<open>run_ocr\<close> in which every exception raised by
  a library call is an instance of \<^verbatim>\<open>Exception\<close>, exactly one of the two output shapes
  is produced: one success object on standard output with return value 0, or one error
  object on standard error with return value 1; never both and never neither.
\<close>

theorem run_ocr_one_shape:
  assumes "ordinary_env env"
  shows "(success_shape s (run_ocr env image_path prompt model_path s)
            \<or> error_shape s (run_ocr env image_path prompt model_path s))
         \<and> \<not> (success_shape s (run_ocr env image_path prompt model_path s)
               \<and> error_shape s (run_ocr env image_path prompt model_path s))"
  using run_ocr_ordinary [OF assms, of image_path prompt model_path s]
  by (auto simp: success_shape_iff error_shape_iff)

text \<open>An instance: on the GPU machine, with an image that does not exist.\<close>

theorem run_ocr_one_shape_witness:
  "ordinary_env env_gpu
   \<and> (success_shape proc0 (run_ocr env_gpu ''missing.png'' default_prompt default_model_path proc0)
        \<or> error_shape proc0 (run_ocr env_gpu ''missing.png'' default_prompt default_model_path proc0))
   \<and> \<not> (success_shape proc0 (run_ocr env_gpu ''missing.png'' default_prompt default_model_path proc0)
        \<and> error_shape proc0 (run_ocr env_gpu ''missing.png'' default_prompt default_model_path proc0))"
  using run_ocr_one_shape [OF ordinary_env_gpu, of proc0 "''missing.png''" default_prompt
      default_model_path] ordinary_env_gpu
  by simp

text \<open>
  Without the restriction the statement fails: when loading the model is interrupted,
  \<^verbatim>\<open>KeyboardInterrupt\<close> passes \<^verbatim>\<open>except Exception\<close>, nothing is printed and nothing is
  returned.
\<close>

theorem run_ocr_interrupted_no_shape:
  "run_ocr env_interrupted_model ''scan.png'' default_prompt default_model_path proc0
     = (Inl KeyboardInterrupt, proc0)
   \<and> \<not> success_shape proc0
        (run_ocr env_interrupted_model ''scan.png'' default_prompt default_model_path proc0)
   \<and> \<not> error_shape proc0
        (run_ocr env_interrupted_model ''scan.png'' default_prompt default_model_path proc0)"
  by (simp add: run_interrupted_model success_shape_def error_shape_def)

text \<open>
  C2 (amended). For every error raised during load (tokenizer, model, device placement,
  inference mode) or during inference that is an instance of \<^verbatim>\<open>Exception\<close>,
  \<^verbatim>\<open>run_ocr\<close> catches it and prints the error envelope of that error on standard error,
  and returns 1: it does not escape \<^verbatim>\<open>run_ocr\<close>.
\<close>

theorem run_ocr_catches_Exception:
  assumes "load env model_path = Inl e
           \<or> (\<exists>tok mdl. load env model_path = Inr (tok, mdl)
                \<and> model_infer env mdl tok (the_call prompt image_path) = Inl e)"
    and "exc_is_Exception e"
  shows "fst (run_ocr env image_path prompt model_path s) = Inr 1
         \<and> emitted (stderr s) (stderr (snd (run_ocr env image_path prompt model_path s)))
             = Some [error_output e]
         \<and> emitted (stdout s) (stdout (snd (run_ocr env image_path prompt model_path s)))
             = Some []"
  using assms(1)
proof
  assume "load env model_path = Inl e"
  with assms(2) show ?thesis
    by (simp add: run_ocr_load_raises except_Exception_def print_stderr_def emitted_append
        emitted_same)
next
  assume "\<exists>tok mdl. load env model_path = Inr (tok, mdl)
            \<and> model_infer env mdl tok (the_call prompt image_path) = Inl e"
  then obtain tok mdl where l: "load env model_path = Inr (tok, mdl)"
    and r: "model_infer env mdl tok (the_call prompt image_path) = Inl e" by blast
  from r assms(2) show ?thesis
    by (simp add: run_ocr_loaded [OF l] except_Exception_def print_stderr_def emitted_append
        emitted_same)
qed

text \<open>An instance: the inference call raises \<^verbatim>\<open>FileNotFoundError\<close> for a missing image.\<close>

theorem run_ocr_catches_Exception_witness:
  "load env_gpu default_model_path = Inr ((), ''cuda'')
   \<and> model_infer env_gpu ''cuda'' () (the_call default_prompt ''missing.png'')
       = Inl FileNotFoundError
   \<and> exc_is_Exception FileNotFoundError
   \<and> fst (run_ocr env_gpu ''missing.png'' default_prompt default_model_path proc0) = Inr 1
   \<and> emitted (stderr proc0)
        (stderr (snd (run_ocr env_gpu ''missing.png'' default_prompt default_model_path proc0)))
       = Some [error_output FileNotFoundError]
   \<and> emitted (stdout proc0)
        (stdout (snd (run_ocr env_gpu ''missing.png'' default_prompt default_model_path proc0)))
       = Some []"
proof -
  have i: "model_infer env_gpu ''cuda'' () (the_call default_prompt ''missing.png'')
             = Inl FileNotFoundError"
    by (simp add: env_gpu_def the_call_def)
  have x: "exc_is_Exception FileNotFoundError" by (simp add: FileNotFoundError_def)
  have "load env_gpu default_model_path = Inl FileNotFoundError
        \<or> (\<exists>tok mdl. load env_gpu default_model_path = Inr (tok, mdl)
             \<and> model_infer env_gpu mdl tok (the_call default_prompt ''missing.png'')
                 = Inl FileNotFoundError)"
    using load_gpu i by blast
  from run_ocr_catches_Exception [OF this x, of proc0] load_gpu i x show ?thesis by blast
qed

text \<open>
  An error of another kind escapes: \<^verbatim>\<open>KeyboardInterrupt\<close> raised while the tokenizer
  loads leaves \<^verbatim>\<open>run_ocr\<close> with nothing written to standard error.
\<close>

theorem run_ocr_interrupted_load_escapes:
  "load env_interrupted_tokenizer default_model_path = Inl KeyboardInterrupt
   \<and> fst (run_ocr env_interrupted_tokenizer ''scan.png'' default_prompt default_model_path proc0)
       = Inl KeyboardInterrupt
   \<and> stderr (snd (run_ocr env_interrupted_tokenizer ''scan.png'' default_prompt
                    default_model_path proc0)) = []"
  unfolding run_interrupted_tokenizer by (simp add: load_interrupted_tokenizer proc0_def)

text \<open>
  C4 (amended). For every failure raised during steps 1 to 6 (load, device placement,
  inference-mode switch, inference, coercion of the result for serialization) that is an
  instance of \<^verbatim>\<open>Exception\<close>, \<^verbatim>\<open>run_ocr\<close> emits to standard error one JSON object
  with the keys \<open>error\<close> and \<open>type\<close>, whose \<open>error\<close> key holds the failure's message and
  whose \<open>type\<close> key holds the class name of the failure, and returns 1.
\<close>

theorem run_ocr_error_envelope:
  assumes "first_failure env image_path prompt model_path = Some e"
    and "exc_is_Exception e"
  shows "fst (run_ocr env image_path prompt model_path s) = Inr 1
         \<and> (\<exists>j. emitted (stderr s) (stderr (snd (run_ocr env image_path prompt model_path s)))
                  = Some [j]
                \<and> json_keys j = Some [''error'', ''type'']
                \<and> json_get j ''error'' = Some (JString (exc_str e))
                \<and> json_get j ''type'' = Some (JString (exc_name e)))"
proof -
  from assms(1) obtain s1 where t: "try_body env image_path prompt model_path s = (Inl e, s1)"
    using first_failure_try_body [of env image_path prompt model_path e s] by blast
  from try_body_raises [OF t] have "stderr s1 = stderr s" by simp
  with run_ocr_caught [OF t assms(2)] show ?thesis
    by (simp add: print_stderr_def emitted_append error_output_def)
qed

text \<open>
  An instance: \<^verbatim>\<open>str(result)\<close> raises \<^verbatim>\<open>TypeError\<close> while the output is built.
\<close>

theorem run_ocr_error_envelope_witness:
  "first_failure env_unprintable ''scan.png'' default_prompt default_model_path = Some TypeError
   \<and> exc_is_Exception TypeError
   \<and> fst (run_ocr env_unprintable ''scan.png'' default_prompt default_model_path proc0) = Inr 1
   \<and> (\<exists>j. emitted (stderr proc0)
              (stderr (snd (run_ocr env_unprintable ''scan.png'' default_prompt
                             default_model_path proc0)))
            = Some [j]
          \<and> json_keys j = Some [''error'', ''type'']
          \<and> json_get j ''error'' = Some (JString (exc_str TypeError))
          \<and> json_get j ''type'' = Some (JString (exc_name TypeError)))"
proof -
  have f: "first_failure env_unprintable ''scan.png'' default_prompt default_model_path
             = Some TypeError"
    by (simp add: first_failure_def env_unprintable_def env_gpu_def default_model_path_def)
  have x: "exc_is_Exception TypeError" by (simp add: TypeError_def)
  from run_ocr_error_envelope [OF f x, of proc0] f x show ?thesis by blast
qed

text \<open>
  A failure that is not an \<^verbatim>\<open>Exception\<close> gets no envelope and no return value: the
  inference call is interrupted.
\<close>

theorem run_ocr_interrupted_infer_no_envelope:
  "first_failure env_interrupted_infer ''scan.png'' default_prompt default_model_path
     = Some KeyboardInterrupt
   \<and> fst (run_ocr env_interrupted_infer ''scan.png'' default_prompt default_model_path proc0)
       = Inl KeyboardInterrupt
   \<and> fst (run_ocr env_interrupted_infer ''scan.png'' default_prompt default_model_path proc0)
       \<noteq> Inr 1
   \<and> stderr (snd (run_ocr env_interrupted_infer ''scan.png'' default_prompt
                    default_model_path proc0)) = []"
  unfolding run_interrupted_infer
  by (simp add: first_failure_def env_interrupted_infer_def env_gpu_def proc0_def
      default_model_path_def)

text \<open>
  C9. When every failure the library calls raise is an ordinary exception (an instance of
  \<^verbatim>\<open>Exception\<close>), \<^verbatim>\<open>run_ocr\<close> returns a value, and the value is 0 or 1.
\<close>

theorem run_ocr_returns_0_or_1:
  assumes "ordinary_env env"
  shows "\<exists>rc s1. run_ocr env image_path prompt model_path s = (Inr rc, s1) \<and> rc \<in> {0, 1}"
proof -
  obtain r s1 where p: "run_ocr env image_path prompt model_path s = (r, s1)"
    by (cases "run_ocr env image_path prompt model_path s")
  with run_ocr_ordinary [OF assms, of image_path prompt model_path s]
  have "r = Inr 0 \<or> r = Inr 1" by simp
  with p show ?thesis by auto
qed

text \<open>
  An instance: the model whose \<^verbatim>\<open>infer\<close> returns \<^verbatim>\<open>None\<close>.
\<close>

theorem run_ocr_returns_0_or_1_witness:
  "ordinary_env env_none
   \<and> (\<exists>rc s1. run_ocr env_none ''page-2.png'' ''Describe'' default_model_path proc0
                 = (Inr rc, s1) \<and> rc \<in> {0, 1})"
  using run_ocr_returns_0_or_1 [OF ordinary_env_none, of "''page-2.png''" "''Describe''"
      default_model_path proc0] ordinary_env_none
  by blast

subsection \<open>The success object\<close>

text \<open>
  C3 (amended). In the success output the metadata \<open>device\<close> field is \<open>cuda\<close> whenever
  \<^verbatim>\<open>torch.cuda.is_available()\<close> holds at run time and \<open>cpu\<close> otherwise; it is one of the
  two values \<open>cpu\<close>, \<open>cuda\<close>.
\<close>

theorem success_device_field:
  assumes "fst (run_ocr env image_path prompt model_path s) = Inr 0"
  shows "\<exists>j. emitted (stdout s) (stdout (snd (run_ocr env image_path prompt model_path s)))
               = Some [j]
             \<and> metadata_field j ''device''
                 = Some (JString (if cuda_is_available env then ''cuda'' else ''cpu''))
             \<and> metadata_field j ''device'' \<in> {Some (JString ''cpu''), Some (JString ''cuda'')}"
  using success_run [OF assms]
  by (auto simp: print_stdout_def emitted_append success_output_def metadata_field_def
      device_name_def)

text \<open>
  An instance: a successful run on the machine without a GPU.
\<close>

theorem success_device_field_witness:
  "fst (run_ocr env_cpu ''scan.png'' ''Describe'' ''other/model'' proc0) = Inr 0
   \<and> (\<exists>j. emitted (stdout proc0)
              (stdout (snd (run_ocr env_cpu ''scan.png'' ''Describe'' ''other/model'' proc0)))
            = Some [j]
          \<and> metadata_field j ''device''
              = Some (JString (if cuda_is_available env_cpu then ''cuda'' else ''cpu''))
          \<and> metadata_field j ''device'' \<in> {Some (JString ''cpu''), Some (JString ''cuda'')})"
proof -
  have h: "fst (run_ocr env_cpu ''scan.png'' ''Describe'' ''other/model'' proc0) = Inr 0"
    by (simp add: run_cpu_scan)
  from success_device_field [OF h] h show ?thesis by blast
qed

text \<open>
  With a GPU the field reads \<open>cuda\<close>; the script never writes \<open>accelerated\<close>.
\<close>

theorem device_field_is_cuda:
  "cuda_is_available env_gpu
   \<and> fst (run_ocr env_gpu ''scan.png'' default_prompt default_model_path proc0) = Inr 0
   \<and> stdout (snd (run_ocr env_gpu ''scan.png'' default_prompt default_model_path proc0))
       = [success_output ''Invoice 42'' default_model_path ''cuda'']
   \<and> metadata_field (success_output ''Invoice 42'' default_model_path ''cuda'') ''device''
       = Some (JString ''cuda'')
   \<and> metadata_field (success_output ''Invoice 42'' default_model_path ''cuda'') ''device''
       \<noteq> Some (JString ''accelerated'')"
  unfolding run_gpu_scan
  by (simp add: env_gpu_def success_output_def metadata_field_def)

text \<open>
  C5. On every successful invocation the \<open>text\<close> field of the emitted object is a string
  and not null: the inference result itself when that is a string, and \<^verbatim>\<open>str(result)\<close>
  otherwise.
\<close>

theorem success_text_field:
  assumes "fst (run_ocr env image_path prompt model_path s) = Inr 0"
  shows "\<exists>tok mdl result tx j.
           load env model_path = Inr (tok, mdl)
           \<and> model_infer env mdl tok (the_call prompt image_path) = Inr result
           \<and> (case result of PyStr x \<Rightarrow> tx = x | PyOther ob \<Rightarrow> py_str env ob = Inr tx)
           \<and> emitted (stdout s) (stdout (snd (run_ocr env image_path prompt model_path s)))
               = Some [j]
           \<and> json_get j ''text'' = Some (JString tx)
           \<and> json_get j ''text'' \<noteq> Some JNull"
proof -
  from success_run [OF assms] obtain tok mdl result tx where
    l: "load env model_path = Inr (tok, mdl)" and
    i: "model_infer env mdl tok (the_call prompt image_path) = Inr result" and
    t: "text_of env result = Inr tx" and
    r: "run_ocr env image_path prompt model_path s =
          (Inr 0, print_stdout (success_output tx model_path (device_name env))
                    (s\<lparr>infer_calls := infer_calls s @ [the_call prompt image_path]\<rparr>))"
    by blast
  from t have c: "case result of PyStr x \<Rightarrow> tx = x | PyOther ob \<Rightarrow> py_str env ob = Inr tx"
    by (auto simp: text_of_def split: pyval.splits)
  have e: "emitted (stdout s) (stdout (snd (run_ocr env image_path prompt model_path s)))
             = Some [success_output tx model_path (device_name env)]"
    by (simp add: r print_stdout_def emitted_append)
  have g: "json_get (success_output tx model_path (device_name env)) ''text''
             = Some (JString tx)"
    by (simp add: success_output_def)
  from l i c e g show ?thesis by (intro exI [of _ tok] exI [of _ mdl] exI [of _ result]
        exI [of _ tx] exI [of _ "success_output tx model_path (device_name env)"]) simp
qed

text \<open>
  An instance: the result \<^verbatim>\<open>None\<close> is emitted as the string \<open>None\<close>.
\<close>

theorem success_text_field_witness:
  "fst (run_ocr env_none ''page-2.png'' ''Describe'' default_model_path proc0) = Inr 0
   \<and> (\<exists>tok mdl result tx j.
         load env_none default_model_path = Inr (tok, mdl)
         \<and> model_infer env_none mdl tok (the_call ''Describe'' ''page-2.png'') = Inr result
         \<and> (case result of PyStr x \<Rightarrow> tx = x | PyOther ob \<Rightarrow> py_str env_none ob = Inr tx)
         \<and> emitted (stdout proc0)
              (stdout (snd (run_ocr env_none ''page-2.png'' ''Describe'' default_model_path proc0)))
             = Some [j]
         \<and> json_get j ''text'' = Some (JString tx)
         \<and> json_get j ''text'' \<noteq> Some JNull)"
proof -
  have h: "fst (run_ocr env_none ''page-2.png'' ''Describe'' default_model_path proc0) = Inr 0"
    by (simp add: run_none)
  from success_text_field [OF h] h show ?thesis by blast
qed

text \<open>
  C7. On every successful invocation, whatever the image, the prompt and the model
  identifier, the \<open>confidence\<close> field of the emitted object is the constant 0.85.
\<close>

theorem success_confidence_field:
  assumes "fst (run_ocr env image_path prompt model_path s) = Inr 0"
  shows "\<exists>j. emitted (stdout s) (stdout (snd (run_ocr env image_path prompt model_path s)))
               = Some [j]
             \<and> json_get j ''confidence'' = Some (JFloat 0.85)"
  using success_run [OF assms]
  by (auto simp: print_stdout_def emitted_append success_output_def)

text \<open>
  An instance: the successful run on the GPU machine.
\<close>

theorem success_confidence_field_witness:
  "fst (run_ocr env_gpu ''scan.png'' default_prompt default_model_path proc0) = Inr 0
   \<and> (\<exists>j. emitted (stdout proc0)
              (stdout (snd (run_ocr env_gpu ''scan.png'' default_prompt default_model_path proc0)))
            = Some [j]
          \<and> json_get j ''confidence'' = Some (JFloat 0.85))"
proof -
  have h: "fst (run_ocr env_gpu ''scan.png'' default_prompt default_model_path proc0) = Inr 0"
    by (simp add: run_gpu_scan)
  from success_confidence_field [OF h] h show ?thesis by blast
qed

subsection \<open>The inference call\<close>

text \<open>
  C8 (amended). Every invocation of \<^verbatim>\<open>run_ocr\<close> performs at most one inference call:
  none when loading, device placement or the inference-mode switch raises, and exactly one
  otherwise, in particular on every successful invocation. The call is made with gradient
  tracking disabled and passes the supplied prompt and image path together with the two
  fixed sizes, base size 1024 and image size 640. Afterwards the gradient mode is what it
  was before.
\<close>

theorem run_ocr_inference_calls:
  "emitted (infer_calls s) (infer_calls (snd (run_ocr env image_path prompt model_path s)))
     = (case load env model_path of
          Inl e \<Rightarrow> Some []
        | Inr tm \<Rightarrow>
            Some [\<lparr>ic_prompt = prompt, ic_image_file = image_path, ic_base_size = 1024,
                   ic_image_size = 640, ic_grad_enabled = False\<rparr>])
   \<and> (fst (run_ocr env image_path prompt model_path s) = Inr 0 \<longrightarrow>
        emitted (infer_calls s) (infer_calls (snd (run_ocr env image_path prompt model_path s)))
          = Some [\<lparr>ic_prompt = prompt, ic_image_file = image_path, ic_base_size = 1024,
                   ic_image_size = 640, ic_grad_enabled = False\<rparr>])
   \<and> grad_enabled (snd (run_ocr env image_path prompt model_path s)) = grad_enabled s"
proof (intro conjI impI)
  show "emitted (infer_calls s) (infer_calls (snd (run_ocr env image_path prompt model_path s)))
     = (case load env model_path of
          Inl e \<Rightarrow> Some []
        | Inr tm \<Rightarrow>
            Some [\<lparr>ic_prompt = prompt, ic_image_file = image_path, ic_base_size = 1024,
                   ic_image_size = 640, ic_grad_enabled = False\<rparr>])"
    by (simp add: run_ocr_infer_calls the_call_def split: sum.splits)
next
  assume "fst (run_ocr env image_path prompt model_path s) = Inr 0"
  from success_infer_calls [OF this]
  show "emitted (infer_calls s) (infer_calls (snd (run_ocr env image_path prompt model_path s)))
          = Some [\<lparr>ic_prompt = prompt, ic_image_file = image_path, ic_base_size = 1024,
                   ic_image_size = 640, ic_grad_enabled = False\<rparr>]"
    by (simp add: the_call_def)
next
  show "grad_enabled (snd (run_ocr env image_path prompt model_path s)) = grad_enabled s"
    by (rule run_ocr_grad_enabled)
qed

text \<open>
  An instance: the successful run on the GPU machine makes the one call.
\<close>

theorem run_ocr_inference_calls_witness:
  "fst (run_ocr env_gpu ''scan.png'' default_prompt default_model_path proc0) = Inr 0
   \<and> emitted (infer_calls proc0)
        (infer_calls (snd (run_ocr env_gpu ''scan.png'' default_prompt default_model_path proc0)))
       = Some [\<lparr>ic_prompt = default_prompt, ic_image_file = ''scan.png'', ic_base_size = 1024,
                ic_image_size = 640, ic_grad_enabled = False\<rparr>]
   \<and> grad_enabled (snd (run_ocr env_gpu ''scan.png'' default_prompt default_model_path proc0))
       = grad_enabled proc0"
proof -
  have h: "fst (run_ocr env_gpu ''scan.png'' default_prompt default_model_path proc0) = Inr 0"
    by (simp add: run_gpu_scan)
  from run_ocr_inference_calls [of proc0 env_gpu "''scan.png''" default_prompt
      default_model_path] h
  show ?thesis by blast
qed

text \<open>
  An invocation with a model that cannot be loaded makes no inference call at all.
\<close>

theorem run_ocr_no_inference_call:
  "fst (run_ocr env_gpu ''scan.png'' default_prompt ''no-such-model'' proc0) = Inr 1
   \<and> infer_calls (snd (run_ocr env_gpu ''scan.png'' default_prompt ''no-such-model'' proc0))
       = []"
  unfolding run_gpu_no_model by (simp add: proc0_def)

text \<open>
  C6. When the command line supplies no \<open>--prompt\<close> option, the prompt \<^verbatim>\<open>main\<close> passes
  on is the default string verbatim: \<open>parse_args\<close> yields it, every inference call the
  run makes carries it, and a run that exits with status 0 has made exactly that call.
\<close>

theorem main_default_prompt:
  assumes "scan argv = Inr c" and "opt_prompt c = None"
  shows "(\<exists>args. parse_args scan argv = Inr args
            \<and> args_prompt args
                = ''<image>'' @ [CHR 0x0A] @ ''<|grounding|>Extract all text from this document.'')
         \<and> (emitted (infer_calls s) (infer_calls (snd (main scan env argv s))) = Some []
              \<or> emitted (infer_calls s) (infer_calls (snd (main scan env argv s)))
                  = Some [the_call
                      (''<image>'' @ [CHR 0x0A]
                         @ ''<|grounding|>Extract all text from this document.'')
                      (pos_image_path c)])
         \<and> (fst (main scan env argv s) = SystemExit 0 \<longrightarrow>
              emitted (infer_calls s) (infer_calls (snd (main scan env argv s)))
                = Some [the_call
                    (''<image>'' @ [CHR 0x0A]
                       @ ''<|grounding|>Extract all text from this document.'')
                    (pos_image_path c)])"
proof -
  let ?m = "case opt_model c of None \<Rightarrow> default_model_path | Some m \<Rightarrow> m"
  let ?R = "run_ocr env (pos_image_path c) default_prompt ?m s"
  have d: "default_prompt
      = ''<image>'' @ [CHR 0x0A] @ ''<|grounding|>Extract all text from this document.''"
    by (simp add: default_prompt_def)
  have a: "\<exists>args. parse_args scan argv = Inr args \<and> args_prompt args = default_prompt"
    using assms by (simp add: parse_args_def)
  have sn: "snd (main scan env argv s) = snd ?R"
    using main_parsed(1) [of scan argv c env s] assms by simp
  have fs: "fst (main scan env argv s) =
      (case fst ?R of Inl e \<Rightarrow> Uncaught e | Inr exit_code \<Rightarrow> SystemExit exit_code)"
    using main_parsed(2) [of scan argv c env s] assms by simp
  have b: "emitted (infer_calls s) (infer_calls (snd ?R)) = Some []
        \<or> emitted (infer_calls s) (infer_calls (snd ?R))
            = Some [the_call default_prompt (pos_image_path c)]"
    by (simp add: run_ocr_infer_calls split: sum.splits)
  have c: "emitted (infer_calls s) (infer_calls (snd ?R))
            = Some [the_call default_prompt (pos_image_path c)]"
    if "fst (main scan env argv s) = SystemExit 0"
  proof -
    from that fs have "fst ?R = Inr 0" by (simp split: sum.splits)
    then show ?thesis by (rule success_infer_calls)
  qed
  from a b c show ?thesis unfolding sn d by blast
qed

text \<open>
  An instance: the command line consisting of the image path alone.
\<close>

theorem main_default_prompt_witness:
  "scan_plain None None None [''scan.png'']
     = Inr \<lparr>pos_image_path = ''scan.png'', opt_prompt = None, opt_model = None\<rparr>
   \<and> fst (main (scan_plain None None None) env_gpu [''scan.png''] proc0) = SystemExit 0
   \<and> emitted (infer_calls proc0)
        (infer_calls (snd (main (scan_plain None None None) env_gpu [''scan.png''] proc0)))
       = Some [the_call
           (''<image>'' @ [CHR 0x0A] @ ''<|grounding|>Extract all text from this document.'')
           ''scan.png'']"
proof -
  let ?c = "\<lparr>pos_image_path = ''scan.png'', opt_prompt = None, opt_model = None\<rparr>"
  have h: "scan_plain None None None [''scan.png''] = Inr ?c" by simp
  have o: "opt_prompt ?c = None" by simp
  have f: "fst (main (scan_plain None None None) env_gpu [''scan.png''] proc0) = SystemExit 0"
    using main_parsed(2) [of "scan_plain None None None" "[''scan.png'']" ?c env_gpu proc0] h
    by (simp add: run_gpu_scan)
  from main_default_prompt [where scan = "scan_plain None None None" and argv = "[''scan.png'']"
      and c = ?c and s = proc0 and env = env_gpu] h o f
  show ?thesis by simp
qed

subsection \<open>Determinism\<close>

text \<open>
  C10. With the environment fixed (accelerator availability and the behaviour of the
  library calls), two invocations of \<^verbatim>\<open>run_ocr\<close> with the same image path, prompt and
  model identifier return the same value and add the same output to the same streams,
  whatever the process did before. Moreover the metadata and the confidence of a success
  object depend only on the model identifier and on accelerator availability: two
  successful runs that agree on these agree on both fields, whatever their prompts, image
  paths and library behaviour.
\<close>

theorem run_ocr_deterministic:
  "(fst (run_ocr env image_path prompt model_path s1)
      = fst (run_ocr env image_path prompt model_path s2)
    \<and> emitted (stdout s1) (stdout (snd (run_ocr env image_path prompt model_path s1)))
        = emitted (stdout s2) (stdout (snd (run_ocr env image_path prompt model_path s2)))
    \<and> emitted (stderr s1) (stderr (snd (run_ocr env image_path prompt model_path s1)))
        = emitted (stderr s2) (stderr (snd (run_ocr env image_path prompt model_path s2))))
   \<and> (cuda_is_available env = cuda_is_available env'
       \<and> fst (run_ocr env image_path prompt model_path s1) = Inr 0
       \<and> fst (run_ocr env' image_path' prompt' model_path s2) = Inr 0 \<longrightarrow>
       (\<exists>j j'. emitted (stdout s1) (stdout (snd (run_ocr env image_path prompt model_path s1)))
                 = Some [j]
             \<and> emitted (stdout s2)
                  (stdout (snd (run_ocr env' image_path' prompt' model_path s2)))
                 = Some [j']
             \<and> json_get j ''metadata'' = json_get j' ''metadata''
             \<and> json_get j ''confidence'' = json_get j' ''confidence''))"
proof (intro conjI impI)
  obtain r out err calls where
    f: "\<And>s. run_ocr env image_path prompt model_path s =
      (r, s\<lparr>stdout := stdout s @ out, stderr := stderr s @ err,
            infer_calls := infer_calls s @ calls\<rparr>)"
    using run_ocr_frame [of env image_path prompt model_path] by blast
  show "fst (run_ocr env image_path prompt model_path s1)
      = fst (run_ocr env image_path prompt model_path s2)"
    by (simp add: f)
  show "emitted (stdout s1) (stdout (snd (run_ocr env image_path prompt model_path s1)))
        = emitted (stdout s2) (stdout (snd (run_ocr env image_path prompt model_path s2)))"
    by (simp add: f emitted_append)
  show "emitted (stderr s1) (stderr (snd (run_ocr env image_path prompt model_path s1)))
        = emitted (stderr s2) (stderr (snd (run_ocr env image_path prompt model_path s2)))"
    by (simp add: f emitted_append)
next
  assume a: "cuda_is_available env = cuda_is_available env'
       \<and> fst (run_ocr env image_path prompt model_path s1) = Inr 0
       \<and> fst (run_ocr env' image_path' prompt' model_path s2) = Inr 0"
  from a have d: "device_name env = device_name env'" by (simp add: device_name_def)
  from a success_run [of env image_path prompt model_path s1] obtain tx where
    r1: "run_ocr env image_path prompt model_path s1 =
          (Inr 0, print_stdout (success_output tx model_path (device_name env))
                    (s1\<lparr>infer_calls := infer_calls s1 @ [the_call prompt image_path]\<rparr>))"
    by blast
  from a success_run [of env' image_path' prompt' model_path s2] obtain tx' where
    r2: "run_ocr env' image_path' prompt' model_path s2 =
          (Inr 0, print_stdout (success_output tx' model_path (device_name env'))
                    (s2\<lparr>infer_calls := infer_calls s2 @ [the_call prompt' image_path']\<rparr>))"
    by blast
  show "\<exists>j j'. emitted (stdout s1) (stdout (snd (run_ocr env image_path prompt model_path s1)))
                 = Some [j]
             \<and> emitted (stdout s2)
                  (stdout (snd (run_ocr env' image_path' prompt' model_path s2)))
                 = Some [j']
             \<and> json_get j ''metadata'' = json_get j' ''metadata''
             \<and> json_get j ''confidence'' = json_get j' ''confidence''"
    by (simp add: r1 r2 d print_stdout_def emitted_append success_output_def)
qed

text \<open>
  An instance: two successful runs on machines with a GPU, with different images, prompts
  and models behind the same identifier.
\<close>

theorem run_ocr_deterministic_witness:
  "cuda_is_available env_gpu = cuda_is_available env_none
   \<and> fst (run_ocr env_gpu ''scan.png'' default_prompt default_model_path proc0) = Inr 0
   \<and> fst (run_ocr env_none ''page-2.png'' ''Describe'' default_model_path proc0) = Inr 0
   \<and> (\<exists>j j'. emitted (stdout proc0)
                 (stdout (snd (run_ocr env_gpu ''scan.png'' default_prompt default_model_path
                                proc0)))
               = Some [j]
             \<and> emitted (stdout proc0)
                 (stdout (snd (run_ocr env_none ''page-2.png'' ''Describe'' default_model_path
                                proc0)))
               = Some [j']
             \<and> json_get j ''metadata'' = json_get j' ''metadata''
             \<and> json_get j ''confidence'' = json_get j' ''confidence'')"
proof -
  have c: "cuda_is_available env_gpu = cuda_is_available env_none"
    by (simp add: env_none_def)
  have h1: "fst (run_ocr env_gpu ''scan.png'' default_prompt default_model_path proc0) = Inr 0"
    by (simp add: run_gpu_scan)
  have h2: "fst (run_ocr env_none ''page-2.png'' ''Describe'' default_model_path proc0) = Inr 0"
    by (simp add: run_none)
  from run_ocr_deterministic [of env_gpu "''scan.png''" default_prompt default_model_path
      proc0 proc0 env_none "''page-2.png''" "''Describe''"] c h1 h2
  show ?thesis by blast
qed

end
